theory Spec2Isabelle
  imports Main
begin

section \<open>The artwork catalogue of app.js\<close>

text \<open>
  The program keeps one JavaScript array, \<^verbatim>\<open>artworks\<close>, loads it from
  \<^verbatim>\<open>data.json\<close> when the process starts and rewrites that file after every
  mutation. Requests address a record by its position, which arrives as the text of
  the route parameter \<^verbatim>\<open>:id\<close>.

  Conventions of the embedding:
  \<^item> text is \<open>string\<close>, read as ASCII (white space and letter case beyond ASCII
    are not modelled); a form field, a query parameter or a property that is
    \<^verbatim>\<open>undefined\<close> is \<open>None\<close>;
  \<^item> a position of the array is a hole (never assigned), \<^verbatim>\<open>null\<close> (a hole that
    went through JSON) or an object;
  \<^item> the array also owns the properties that an assignment under a key which is not
    an array index creates; the properties that every array has without such an
    assignment (its \<^verbatim>\<open>length\<close>, and \<^verbatim>\<open>map\<close>, \<^verbatim>\<open>splice\<close>, ... inherited from
    \<^verbatim>\<open>Array.prototype\<close>) are outside the embedding: under such a key a read gives
    \<^verbatim>\<open>undefined\<close> here and a write creates a named property, where the code reads
    the built-in value and rejects a write to \<^verbatim>\<open>length\<close>; no statement below
    quantifies over keys that could name one;
  \<^item> numbers are exact: \<^verbatim>\<open>parseInt\<close> yields an unbounded integer and
    \<^verbatim>\<open>ToNumber\<close> an exact decimal, where the code rounds to a double (integers
    beyond 2^53, long fractions), and \<^verbatim>\<open>ToString\<close> has no exponent notation
    (from 10^21 on); the text of an array index is read the same way by both;
  \<^item> \<^verbatim>\<open>data.json\<close> is absent, holds text that \<^verbatim>\<open>JSON.parse\<close> rejects, or holds
    the JSON value it was last given by \<^verbatim>\<open>saveArtwork\<close>; writing the file succeeds;
  \<^item> a handler returns what it answered, or the exception it threw, together with
    the state it left.
\<close>

subsection \<open>Data\<close>

text \<open>The \<^verbatim>\<open>image\<close> property: not there, \<^verbatim>\<open>null\<close> (no upload), or a file name.\<close>

datatype image_ref = NoProp | NullRef | File string

record artwork =
  title :: "string option"
  date :: "string option"
  description :: "string option"
  image :: image_ref
  liked :: "bool option"

datatype slot = Hole | Null | Obj artwork

text \<open>What a property read \<^verbatim>\<open>artworks[key]\<close> yields.\<close>

datatype jsval = Undefined | NullVal | Object artwork

datatype js_error = ENOENT | SyntaxError | TypeError

text \<open>
  The file \<^verbatim>\<open>data.json\<close>. \<open>Unparsable\<close> carries text outside the JSON grammar;
  \<open>Json\<close> carries the array that the text denotes, its elements being \<^verbatim>\<open>null\<close> or
  objects (\<open>Hole\<close> never occurs in a value that \<open>stringify\<close> produced).
\<close>

datatype document = Missing | Unparsable string | Json "slot list"

record store =
  artworks :: "slot list"
  named :: "(string \<times> artwork) list"
  disk :: document
  uploads :: "string list"

datatype reply =
    Redirect
  | Sent string
  | Form string "string option" "string option" "string option"
  | Cards "(nat \<times> artwork) list"
  | Threw js_error

subsection \<open>Persistent store\<close>

text \<open>\<^verbatim>\<open>fs.readFileSync('data.json', 'utf-8')\<close> throws when the file is absent.\<close>

datatype content = Garbage string | Text "slot list"

definition readFileSync :: "document \<Rightarrow> js_error + content" where
  "readFileSync d =
     (case d of Missing \<Rightarrow> Inl ENOENT
      | Unparsable t \<Rightarrow> Inr (Garbage t)
      | Json v \<Rightarrow> Inr (Text v))"

definition JSON_parse :: "content \<Rightarrow> js_error + slot list" where
  "JSON_parse c = (case c of Garbage t \<Rightarrow> Inl SyntaxError | Text v \<Rightarrow> Inr v)"

text \<open>
  \<^verbatim>\<open>JSON.stringify(artworks, null, 2)\<close>: a hole is written as \<^verbatim>\<open>null\<close>; a property
  whose value is \<^verbatim>\<open>undefined\<close> is left out, which reads back as \<^verbatim>\<open>undefined\<close>;
  the named properties of the array are not written.
\<close>

fun stringify_slot :: "slot \<Rightarrow> slot" where
  "stringify_slot Hole = Null"
| "stringify_slot Null = Null"
| "stringify_slot (Obj a) = Obj a"

definition JSON_stringify :: "slot list \<Rightarrow> slot list" where
  "JSON_stringify xs = map stringify_slot xs"

text \<open>
  \<^verbatim>\<open>
  let artworks = [];
  try { artworks = JSON.parse(fs.readFileSync('data.json', 'utf-8')); }
  catch { artworks = []; }
  \<close>
\<close>

definition load :: "document \<Rightarrow> slot list" where
  "load d =
     (case readFileSync d of
        Inl e \<Rightarrow> []
      | Inr c \<Rightarrow> (case JSON_parse c of Inl e \<Rightarrow> [] | Inr v \<Rightarrow> v))"

definition startup :: "document \<Rightarrow> string list \<Rightarrow> store" where
  "startup d fs = \<lparr>artworks = load d, named = [], disk = d, uploads = fs\<rparr>"

definition saveArtwork :: "store \<Rightarrow> store" where
  "saveArtwork st = st\<lparr>disk := Json (JSON_stringify (artworks st))\<rparr>"

subsection \<open>Create\<close>

text \<open>JavaScript truthiness of a text field: \<^verbatim>\<open>undefined\<close> and \<^verbatim>\<open>''\<close> are falsy.\<close>

fun truthy :: "string option \<Rightarrow> bool" where
  "truthy None = False"
| "truthy (Some s) = (s \<noteq> [])"

text \<open>
  \<^verbatim>\<open>
  app.post('/addArtwork', upload.single('image'), (req, res) => {
    const { title, date, description } = req.body;
    const image = req.file ? req.file.filename : null;
    if (title && date && description) {
      artworks.push({ title, date, description, image, liked: false });
      saveArtwork();
      res.redirect('/');
    } else {
      res.send("All fields are required (except image).");
    }
  });
  \<close>
  The middleware \<^verbatim>\<open>upload.single('image')\<close> runs before the handler: when the
  request carries a file, multer stores it in \<^verbatim>\<open>public/uploads/\<close> under a
  generated name (time stamp, random number, original name). That name is the
  parameter \<open>file\<close>.
\<close>

definition upload_single :: "store \<Rightarrow> string option \<Rightarrow> store" where
  "upload_single st file =
     (case file of Some f \<Rightarrow> st\<lparr>uploads := f # uploads st\<rparr> | None \<Rightarrow> st)"

definition addArtwork ::
  "store \<Rightarrow> string option \<Rightarrow> string option \<Rightarrow> string option \<Rightarrow> string option
     \<Rightarrow> reply \<times> store" where
  "addArtwork st ttl dt descr file =
     (let st1 = upload_single st file;
          im = (case file of Some f \<Rightarrow> File f | None \<Rightarrow> NullRef) in
      if truthy ttl \<and> truthy dt \<and> truthy descr then
        (Redirect,
         saveArtwork (st1\<lparr>artworks := artworks st1 @
           [Obj \<lparr>title = ttl, date = dt, description = descr, image = im,
                 liked = Some False\<rparr>]\<rparr>))
      else (Sent ''All fields are required (except image).'', st1))"

subsection \<open>Property keys\<close>

definition is_digit :: "char \<Rightarrow> bool" where
  "is_digit c = (c \<in> set ''0123456789'')"

definition digit_val :: "char \<Rightarrow> nat" where
  "digit_val c = of_char c - 48"

definition decimal :: "string \<Rightarrow> nat" where
  "decimal ds = foldl (\<lambda>n c. 10 * n + digit_val c) 0 ds"

text \<open>
  A property key is an array index when it is the canonical decimal text of an
  integer from 0 to 2^32 - 2: digits only, no leading zero. Every other key names
  an ordinary property of the array object.
\<close>

definition array_index :: "string \<Rightarrow> nat option" where
  "array_index s =
     (if s \<noteq> [] \<and> list_all is_digit s \<and> \<not> (1 < length s \<and> hd s = CHR ''0'')
         \<and> int (decimal s) < 2 ^ 32 - 1
      then Some (decimal s) else None)"

datatype key = Index nat | Named string

definition property_key :: "string \<Rightarrow> key" where
  "property_key s = (case array_index s of Some i \<Rightarrow> Index i | None \<Rightarrow> Named s)"

fun slot_value :: "slot \<Rightarrow> jsval" where
  "slot_value Hole = Undefined"
| "slot_value Null = NullVal"
| "slot_value (Obj a) = Object a"

text \<open>\<^verbatim>\<open>artworks[key]\<close>, read.\<close>

fun get_prop :: "store \<Rightarrow> key \<Rightarrow> jsval" where
  "get_prop st (Index i) =
     (if i < length (artworks st) then slot_value (artworks st ! i) else Undefined)"
| "get_prop st (Named s) =
     (case map_of (named st) s of None \<Rightarrow> Undefined | Some a \<Rightarrow> Object a)"

text \<open>
  \<^verbatim>\<open>artworks[key] = obj\<close>, written. An index at or beyond the length extends the
  array, leaving holes in between.
\<close>

fun set_prop :: "store \<Rightarrow> key \<Rightarrow> artwork \<Rightarrow> store" where
  "set_prop st (Index i) a =
     (if i < length (artworks st) then st\<lparr>artworks := (artworks st)[i := Obj a]\<rparr>
      else st\<lparr>artworks :=
             artworks st @ replicate (i - length (artworks st)) Hole @ [Obj a]\<rparr>)"
| "set_prop st (Named s) a =
     st\<lparr>named := (s, a) # filter (\<lambda>p. fst p \<noteq> s) (named st)\<rparr>"

subsection \<open>Read for edit, update\<close>

text \<open>
  \<^verbatim>\<open>
  app.get('/updateArtwork/:id', (req, res) => {
    const id = req.params.id;
    const item = artworks[id];
    ...
    const edited = template.replace('{{id}}', id).replace('{{title}}', item.title)
      .replace('{{date}}', item.date).replace('{{description}}', item.description);
    res.send(edited);
  });
  \<close>
  Reading \<^verbatim>\<open>item.title\<close> of \<^verbatim>\<open>undefined\<close> or \<^verbatim>\<open>null\<close> throws a TypeError. The
  answer is modelled by the four values that fill the template.
\<close>

definition getArtwork :: "store \<Rightarrow> string \<Rightarrow> reply \<times> store" where
  "getArtwork st ident =
     (case get_prop st (property_key ident) of
        Undefined \<Rightarrow> (Threw TypeError, st)
      | NullVal \<Rightarrow> (Threw TypeError, st)
      | Object a \<Rightarrow> (Form ident (title a) (date a) (description a), st))"

text \<open>The object \<^verbatim>\<open>{...existing}\<close>: spreading \<^verbatim>\<open>undefined\<close> or \<^verbatim>\<open>null\<close> gives no property.\<close>

definition no_props :: artwork where
  "no_props = \<lparr>title = None, date = None, description = None, image = NoProp, liked = None\<rparr>"

fun spread :: "jsval \<Rightarrow> artwork" where
  "spread (Object a) = a"
| "spread Undefined = no_props"
| "spread NullVal = no_props"

text \<open>
  \<^verbatim>\<open>
  app.post('/updateArtwork/:id', (req, res) => {
    const id = req.params.id;
    const { title, date, description } = req.body;
    const existing = artworks[id];
    artworks[id] = { ...existing, title, date, description };
    saveArtwork();
    res.redirect('/');
  });
  \<close>
\<close>

definition updateArtwork ::
  "store \<Rightarrow> string \<Rightarrow> string option \<Rightarrow> string option \<Rightarrow> string option \<Rightarrow> reply \<times> store" where
  "updateArtwork st ident ttl dt descr =
     (let k = property_key ident;
          existing = get_prop st k
      in (Redirect,
          saveArtwork
            (set_prop st k ((spread existing)\<lparr>title := ttl, date := dt, description := descr\<rparr>))))"

subsection \<open>Text to number\<close>

text \<open>White space that \<^verbatim>\<open>parseInt\<close> and \<^verbatim>\<open>ToNumber\<close> skip (the ASCII part).\<close>

definition is_space :: "char \<Rightarrow> bool" where
  "is_space c = (of_char c \<in> {9, 10, 11, 12, 13, 32 :: nat})"

definition trim :: "string \<Rightarrow> string" where
  "trim s = rev (dropWhile is_space (rev (dropWhile is_space s)))"

text \<open>An optional sign: whether it was \<^verbatim>\<open>-\<close>, and the rest.\<close>

fun strip_sign :: "string \<Rightarrow> bool \<times> string" where
  "strip_sign [] = (False, [])"
| "strip_sign (c # cs) =
     (if c = CHR ''-'' then (True, cs)
      else if c = CHR ''+'' then (False, cs)
      else (False, c # cs))"

definition radix_digit :: "char \<Rightarrow> nat option" where
  "radix_digit c =
     (let n = (of_char c :: nat) in
      if 48 \<le> n \<and> n \<le> 57 then Some (n - 48)
      else if 97 \<le> n \<and> n \<le> 122 then Some (n - 87)
      else if 65 \<le> n \<and> n \<le> 90 then Some (n - 55)
      else None)"

definition is_radix_digit :: "nat \<Rightarrow> char \<Rightarrow> bool" where
  "is_radix_digit r c = (case radix_digit c of Some d \<Rightarrow> d < r | None \<Rightarrow> False)"

definition radix_value :: "nat \<Rightarrow> string \<Rightarrow> nat" where
  "radix_value r ds = foldl (\<lambda>n c. r * n + the (radix_digit c)) 0 ds"

definition hex_prefix :: "string \<Rightarrow> bool" where
  "hex_prefix s = (take 2 s = ''0x'' \<or> take 2 s = ''0X'')"

text \<open>
  \<^verbatim>\<open>parseInt(s)\<close> with no radix: leading white space and one sign are dropped, a
  prefix \<^verbatim>\<open>0x\<close> selects base 16, and the longest run of digits that follows is the
  number; what comes after it is ignored. With no digit the result is NaN (\<open>None\<close>).
\<close>

definition parseInt :: "string \<Rightarrow> int option" where
  "parseInt s =
     (let (neg, u) = strip_sign (dropWhile is_space s);
          r = (if hex_prefix u then 16 else 10);
          v = (if hex_prefix u then drop 2 u else u);
          z = takeWhile (is_radix_digit r) v
      in if z = [] then None
         else Some ((if neg then - 1 else 1) * int (radix_value r z)))"

text \<open>The result of \<^verbatim>\<open>ToIntegerOrInfinity\<close>.\<close>

datatype integer_or_infinity = Fin int | PosInf | NegInf

text \<open>
  \<^verbatim>\<open>0x\<close>, \<^verbatim>\<open>0o\<close> and \<^verbatim>\<open>0b\<close> literals: a prefix and at least one digit of the
  base, nothing else.
\<close>

definition non_decimal :: "string \<Rightarrow> nat option" where
  "non_decimal t =
     (let r = (if take 2 t = ''0x'' \<or> take 2 t = ''0X'' then 16
               else if take 2 t = ''0o'' \<or> take 2 t = ''0O'' then 8
               else if take 2 t = ''0b'' \<or> take 2 t = ''0B'' then 2
               else 0 :: nat);
          ds = drop 2 t
      in if r \<noteq> 0 \<and> ds \<noteq> [] \<and> list_all (is_radix_digit r) ds
         then Some (radix_value r ds) else None)"

text \<open>The exponent part of a decimal literal: empty, or \<^verbatim>\<open>e\<close>, a sign, digits.\<close>

definition exponent_part :: "string \<Rightarrow> int option" where
  "exponent_part r =
     (if r = [] then Some 0
      else if hd r = CHR ''e'' \<or> hd r = CHR ''E'' then
        (let (neg, ds) = strip_sign (tl r)
         in if ds \<noteq> [] \<and> list_all is_digit ds
            then Some ((if neg then - 1 else 1) * int (decimal ds)) else None)
      else None)"

text \<open>
  An unsigned decimal literal, as its digits and the power of ten that scales them:
  digits, an optional point with more digits, an optional exponent; at least one digit
  before the exponent.
\<close>

definition decimal_literal :: "string \<Rightarrow> (nat \<times> int) option" where
  "decimal_literal u =
     (let ip = takeWhile is_digit u;
          r1 = dropWhile is_digit u;
          dot = (r1 \<noteq> [] \<and> hd r1 = CHR ''.'');
          fp = (if dot then takeWhile is_digit (tl r1) else []);
          r2 = (if dot then dropWhile is_digit (tl r1) else r1)
      in if ip = [] \<and> fp = [] then None
         else (case exponent_part r2 of
                 None \<Rightarrow> None
               | Some e \<Rightarrow> Some (decimal (ip @ fp), e - int (length fp))))"

text \<open>
  \<^verbatim>\<open>ToIntegerOrInfinity(ToNumber(s))\<close> for a string, as \<^verbatim>\<open>splice\<close> applies it to
  its first argument: white space is trimmed, the empty text is 0, text that is not a
  numeric literal is NaN and counts as 0, and a fraction is cut off towards zero.
\<close>

definition to_integer :: "string \<Rightarrow> integer_or_infinity" where
  "to_integer s =
     (let t = trim s in
      if t = [] then Fin 0
      else (case non_decimal t of
              Some n \<Rightarrow> Fin (int n)
            | None \<Rightarrow>
               (let (neg, u) = strip_sign t in
                if u = ''Infinity'' then (if neg then NegInf else PosInf)
                else (case decimal_literal u of
                        None \<Rightarrow> Fin 0
                      | Some (m, e) \<Rightarrow>
                          Fin ((if neg then - 1 else 1) *
                               (if 0 \<le> e then int m * 10 ^ nat e
                                else int m div 10 ^ nat (- e)))))))"

text \<open>The decimal text of a number.\<close>

fun show_nat :: "nat \<Rightarrow> string" where
  "show_nat n =
     (if n < 10 then [char_of (48 + n)]
      else show_nat (n div 10) @ [char_of (48 + n mod 10)])"

definition show_int :: "int \<Rightarrow> string" where
  "show_int n = (if n < 0 then CHR ''-'' # show_nat (nat (- n)) else show_nat (nat n))"

text \<open>The property key of a number: \<^verbatim>\<open>ToString\<close>, then the test for an array index.\<close>

definition number_key :: "int option \<Rightarrow> key" where
  "number_key v =
     (case v of
        None \<Rightarrow> Named ''NaN''
      | Some n \<Rightarrow> if 0 \<le> n \<and> n < 2 ^ 32 - 1 then Index (nat n) else Named (show_int n))"

subsection \<open>Delete, toggle\<close>

text \<open>
  \<^verbatim>\<open>xs.splice(start, 1)\<close>: a negative start counts from the end, the start is
  clamped to the array, and one element is removed if there is one at the start.
\<close>

definition splice1 :: "'a list \<Rightarrow> integer_or_infinity \<Rightarrow> 'a list" where
  "splice1 xs start =
     (let len = int (length xs);
          actual = (case start of
                      NegInf \<Rightarrow> 0
                    | PosInf \<Rightarrow> len
                    | Fin r \<Rightarrow> if r < 0 then max (len + r) 0 else min r len);
          dc = min (max 1 0) (len - actual)
      in take (nat actual) xs @ drop (nat (actual + dc)) xs)"

text \<open>
  The file of the image is removed when it is there:
  \<^verbatim>\<open>if (fs.existsSync(imagePath)) fs.unlinkSync(imagePath)\<close>.
\<close>

definition unlink_image :: "store \<Rightarrow> artwork \<Rightarrow> store" where
  "unlink_image st a =
     (case image a of
        File f \<Rightarrow>
          if f \<noteq> [] \<and> f \<in> set (uploads st)
          then st\<lparr>uploads := removeAll f (uploads st)\<rparr> else st
      | NullRef \<Rightarrow> st
      | NoProp \<Rightarrow> st)"

text \<open>
  \<^verbatim>\<open>
  app.post('/deleteArtwork/:id', (req, res) => {
    const id = req.params.id;
    const artwork = artworks[id];
    if (artwork.image) { ... unlink ... }
    artworks.splice(id, 1);
    saveArtwork();
    res.redirect('/');
  });
  \<close>
  Reading \<^verbatim>\<open>artwork.image\<close> of \<^verbatim>\<open>undefined\<close> or \<^verbatim>\<open>null\<close> throws a TypeError.
\<close>

definition deleteArtwork :: "store \<Rightarrow> string \<Rightarrow> reply \<times> store" where
  "deleteArtwork st ident =
     (case get_prop st (property_key ident) of
        Undefined \<Rightarrow> (Threw TypeError, st)
      | NullVal \<Rightarrow> (Threw TypeError, st)
      | Object a \<Rightarrow>
          (let st1 = unlink_image st a
           in (Redirect,
               saveArtwork (st1\<lparr>artworks := splice1 (artworks st1) (to_integer ident)\<rparr>))))"

text \<open>
  \<^verbatim>\<open>
  app.post('/toggleLike/:id', (req, res) => {
    const id = parseInt(req.params.id);
    if (artworks[id]) {
      artworks[id].liked = !artworks[id].liked;
      saveArtwork();
    }
    res.redirect('/');
  });
  \<close>
  \<^verbatim>\<open>!x\<close> is true for \<^verbatim>\<open>undefined\<close> and \<^verbatim>\<open>false\<close>.
\<close>

definition toggleLike :: "store \<Rightarrow> string \<Rightarrow> reply \<times> store" where
  "toggleLike st ident =
     (let k = number_key (parseInt ident) in
      case get_prop st k of
        Object a \<Rightarrow>
          (Redirect, saveArtwork (set_prop st k (a\<lparr>liked := Some (liked a \<noteq> Some True)\<rparr>)))
      | Undefined \<Rightarrow> (Redirect, st)
      | NullVal \<Rightarrow> (Redirect, st))"

subsection \<open>The two listings\<close>

text \<open>\<^verbatim>\<open>toLowerCase\<close> on ASCII text, and \<^verbatim>\<open>s.includes(q)\<close>.\<close>

definition lower_char :: "char \<Rightarrow> char" where
  "lower_char c =
     (let n = (of_char c :: nat) in if 65 \<le> n \<and> n \<le> 90 then char_of (n + 32) else c)"

definition toLowerCase :: "string \<Rightarrow> string" where
  "toLowerCase s = map lower_char s"

fun includes_str :: "string \<Rightarrow> string \<Rightarrow> bool" where
  "includes_str [] q = (q = [])"
| "includes_str (c # cs) q = (take (length q) (c # cs) = q \<or> includes_str cs q)"

text \<open>
  \<^verbatim>\<open>artworks.map((item, index) => ({ ...item, index }))\<close> pairs every element with
  its position; \<^verbatim>\<open>map\<close> and \<^verbatim>\<open>filter\<close> pass over holes without calling back.
\<close>

definition with_index :: "slot list \<Rightarrow> (nat \<times> slot) list" where
  "with_index xs = zip [0 ..< length xs] xs"

text \<open>
  \<^verbatim>\<open>.filter(item => item.title.toLowerCase().includes(searchQuery.toLowerCase()))\<close>.
  The element that came from \<^verbatim>\<open>null\<close> has no title, and calling
  \<^verbatim>\<open>toLowerCase\<close> on \<^verbatim>\<open>undefined\<close> throws.
\<close>

fun home_filter :: "string \<Rightarrow> (nat \<times> slot) list \<Rightarrow> js_error + (nat \<times> artwork) list" where
  "home_filter q [] = Inr []"
| "home_filter q ((i, Hole) # xs) = home_filter q xs"
| "home_filter q ((i, Null) # xs) = Inl TypeError"
| "home_filter q ((i, Obj a) # xs) =
     (case title a of
        None \<Rightarrow> Inl TypeError
      | Some t \<Rightarrow>
          (case home_filter q xs of
             Inl e \<Rightarrow> Inl e
           | Inr r \<Rightarrow>
               Inr (if includes_str (toLowerCase t) (toLowerCase q) then (i, a) # r else r)))"

text \<open>
  \<^verbatim>\<open>
  .filter(item => item.liked && (
     item.title.toLowerCase().includes(searchQuery.toLowerCase()) ||
     item.description.toLowerCase().includes(searchQuery.toLowerCase())))
  \<close>
  The title is read only of a liked item, the description only when the title does
  not match.
\<close>

definition fav_test :: "string \<Rightarrow> artwork \<Rightarrow> js_error + bool" where
  "fav_test q a =
     (if liked a \<noteq> Some True then Inr False
      else (case title a of
              None \<Rightarrow> Inl TypeError
            | Some t \<Rightarrow>
                if includes_str (toLowerCase t) (toLowerCase q) then Inr True
                else (case description a of
                        None \<Rightarrow> Inl TypeError
                      | Some d \<Rightarrow> Inr (includes_str (toLowerCase d) (toLowerCase q)))))"

fun fav_filter :: "string \<Rightarrow> (nat \<times> slot) list \<Rightarrow> js_error + (nat \<times> artwork) list" where
  "fav_filter q [] = Inr []"
| "fav_filter q ((i, Hole) # xs) = fav_filter q xs"
| "fav_filter q ((i, Null) # xs) = fav_filter q xs"
| "fav_filter q ((i, Obj a) # xs) =
     (case fav_test q a of
        Inl e \<Rightarrow> Inl e
      | Inr b \<Rightarrow>
          (case fav_filter q xs of
             Inl e \<Rightarrow> Inl e
           | Inr r \<Rightarrow> Inr (if b then (i, a) # r else r)))"

text \<open>\<^verbatim>\<open>req.query.search || ''\<close>.\<close>

definition search_query :: "string option \<Rightarrow> string" where
  "search_query s = (case s of None \<Rightarrow> [] | Some q \<Rightarrow> q)"

text \<open>
  The two pages, modelled by the list of cards they render: each card carries the
  position and the record it was rendered from.
\<close>

definition home :: "store \<Rightarrow> string option \<Rightarrow> reply \<times> store" where
  "home st search =
     (case home_filter (search_query search) (with_index (artworks st)) of
        Inl e \<Rightarrow> (Threw e, st)
      | Inr r \<Rightarrow> (Cards r, st))"

definition favourites :: "store \<Rightarrow> string option \<Rightarrow> reply \<times> store" where
  "favourites st search =
     (case fav_filter (search_query search) (with_index (artworks st)) of
        Inl e \<Rightarrow> (Threw e, st)
      | Inr r \<Rightarrow> (Cards r, st))"

subsection \<open>Sample stores\<close>

text \<open>The store of a process that started without a \<^verbatim>\<open>data.json\<close>.\<close>

definition empty_store :: store where
  "empty_store = startup Missing []"

definition irises :: artwork where
  "irises = \<lparr>title = Some ''Irises'', date = Some ''1889'', description = Some ''oil'',
              image = File ''1-2-irises.png'', liked = Some True\<rparr>"

definition poppies :: artwork where
  "poppies = \<lparr>title = Some ''Poppies'', date = Some ''1873'', description = Some ''field'',
               image = NullRef, liked = Some False\<rparr>"

definition gallery :: store where
  "gallery = \<lparr>artworks = [Obj irises, Obj poppies], named = [],
               disk = Json [Obj irises, Obj poppies], uploads = [''1-2-irises.png'']\<rparr>"

text \<open>
  The store after an update was sent to index 3 of the two records, and the store of
  a fresh process that starts on the file this update saved.
\<close>

definition holed :: store where
  "holed = snd (updateArtwork gallery ''3'' (Some ''Lilies'') (Some ''1890'') (Some ''ink''))"

definition reloaded :: store where
  "reloaded = startup (disk (saveArtwork holed)) (uploads holed)"

text \<open>
  The store after one record was created in the empty store and then updated by a
  form that carries no title field.
\<close>

definition untitled :: store where
  "untitled =
     snd (updateArtwork
            (snd (addArtwork empty_store (Some ''Irises'') (Some ''1889'') (Some ''oil'') None))
            ''0'' None (Some ''1889'') (Some ''oil''))"

text \<open>The invariant of the data model: every record has a title that is non-empty text.\<close>

fun titled :: "slot \<Rightarrow> bool" where
  "titled (Obj a) = truthy (title a)"
| "titled Hole = True"
| "titled Null = True"

subsection \<open>Request sequences\<close>

text \<open>
  A create request: title, date, description and the name of the upload. It is accepted
  when the three text fields are truthy; \<open>pushed\<close> is the object that the handler
  then appends, and \<open>create_all\<close> sends the requests of a list one after the other.
\<close>

type_synonym form = "string option \<times> string option \<times> string option \<times> string option"

fun accepted :: "form \<Rightarrow> bool" where
  "accepted (t, d, ds, f) = (truthy t \<and> truthy d \<and> truthy ds)"

fun pushed :: "form \<Rightarrow> slot" where
  "pushed (t, d, ds, f) =
     Obj \<lparr>title = t, date = d, description = ds,
          image = (case f of Some n \<Rightarrow> File n | None \<Rightarrow> NullRef), liked = Some False\<rparr>"

fun create_all :: "store \<Rightarrow> form list \<Rightarrow> store" where
  "create_all st [] = st"
| "create_all st ((t, d, ds, f) # fs) = create_all (snd (addArtwork st t d ds f)) fs"

definition form_a :: form where "form_a = (Some ''A'', Some ''1901'', Some ''first'', None)"
definition form_b :: form where "form_b = (Some ''B'', Some ''1902'', Some ''second'', Some ''7-8-b.png'')"
definition form_c :: form where "form_c = (Some ''C'', Some ''1903'', Some ''third'', None)"

subsection \<open>The search of the specification\<close>

text \<open>
  The record of the data model carries text in \<^verbatim>\<open>title\<close> and \<^verbatim>\<open>description\<close>.
  The specification's search: a text contains the query case-insensitively when one of
  its substrings equals the query up to the case of the letters; an absent field
  contains nothing. \<open>records\<close> lists the records of an indexed array with their
  positions, in the order of the array.
\<close>

fun text_record :: "slot \<Rightarrow> bool" where
  "text_record (Obj a) = (title a \<noteq> None \<and> description a \<noteq> None)"
| "text_record Hole = False"
| "text_record Null = False"

definition contains_ignoring_case :: "string \<Rightarrow> string \<Rightarrow> bool" where
  "contains_ignoring_case t q =
     (\<exists>pre mid suf. t = pre @ mid @ suf \<and> toLowerCase mid = toLowerCase q)"

definition field_matches :: "string \<Rightarrow> string option \<Rightarrow> bool" where
  "field_matches q f = (case f of Some t \<Rightarrow> contains_ignoring_case t q | None \<Rightarrow> False)"

fun records :: "(nat \<times> slot) list \<Rightarrow> (nat \<times> artwork) list" where
  "records [] = []"
| "records ((i, Obj a) # xs) = (i, a) # records xs"
| "records ((i, Hole) # xs) = records xs"
| "records ((i, Null) # xs) = records xs"

definition abcdef :: artwork where
  "abcdef = \<lparr>title = Some ''Abcdef'', date = Some ''1901'', description = Some ''plain'',
              image = NullRef, liked = Some False\<rparr>"

definition xyz :: artwork where
  "xyz = \<lparr>title = Some ''xyz'', date = Some ''1902'', description = Some ''has ABC in it'',
           image = NullRef, liked = Some True\<rparr>"

definition abc123 :: artwork where
  "abc123 = \<lparr>title = Some ''ABC123'', date = Some ''1903'', description = Some ''plain'',
              image = NullRef, liked = Some True\<rparr>"

definition shelf :: store where
  "shelf = \<lparr>artworks = [Obj abcdef, Obj xyz, Obj abc123], named = [],
             disk = Json [Obj abcdef, Obj xyz, Obj abc123], uploads = []\<rparr>"

section \<open>Properties\<close>

text \<open>
  C8. When \<^verbatim>\<open>data.json\<close> is missing, or holds text that is not JSON, loading gives
  the empty sequence: the exception of the read or of the parse is caught and does
  not leave \<open>load\<close>.
\<close>

theorem load_missing_or_malformed:
  "load Missing = [] \<and> load (Unparsable t) = []
   \<and> readFileSync Missing = Inl ENOENT
   \<and> (\<exists>c. readFileSync (Unparsable t) = Inr c \<and> JSON_parse c = Inl SyntaxError)"
  by (simp add: load_def readFileSync_def JSON_parse_def)

lemma upload_single_keeps [simp]:
  "artworks (upload_single st file) = artworks st"
  "named (upload_single st file) = named st"
  "disk (upload_single st file) = disk st"
  by (simp_all add: upload_single_def split: option.splits)

text \<open>
  C3. A create request in which the title, the date or the description is empty or
  absent is answered with the rejection message; the store is as the upload middleware
  left it: the collection and the file \<^verbatim>\<open>data.json\<close> are as before the request,
  so nothing was appended and nothing was saved. With the three fields present and no
  image the request succeeds and appends the record with \<^verbatim>\<open>image = null\<close>.
\<close>

theorem create_validation:
  "(\<not> truthy ttl \<or> \<not> truthy dt \<or> \<not> truthy descr \<longrightarrow>
      addArtwork st ttl dt descr file =
        (Sent ''All fields are required (except image).'', upload_single st file)
      \<and> artworks (snd (addArtwork st ttl dt descr file)) = artworks st
      \<and> disk (snd (addArtwork st ttl dt descr file)) = disk st)
   \<and> (truthy ttl \<and> truthy dt \<and> truthy descr \<longrightarrow>
      fst (addArtwork st ttl dt descr None) = Redirect
      \<and> artworks (snd (addArtwork st ttl dt descr None)) =
          artworks st @ [Obj \<lparr>title = ttl, date = dt, description = descr,
                               image = NullRef, liked = Some False\<rparr>])"
  by (auto simp: addArtwork_def Let_def saveArtwork_def)

theorem create_validation_witness:
  "\<not> truthy (Some '''') \<and>
   fst (addArtwork empty_store (Some '''') (Some ''1889'') (Some ''oil'') (Some ''1-2-a.png''))
     = Sent ''All fields are required (except image).''
   \<and> artworks (snd (addArtwork empty_store (Some '''') (Some ''1889'') (Some ''oil'')
        (Some ''1-2-a.png''))) = []
   \<and> disk (snd (addArtwork empty_store (Some '''') (Some ''1889'') (Some ''oil'')
        (Some ''1-2-a.png''))) = Missing
   \<and> truthy (Some ''Irises'') \<and> truthy (Some ''1889'') \<and> truthy (Some ''oil'')
   \<and> fst (addArtwork empty_store (Some ''Irises'') (Some ''1889'') (Some ''oil'') None) = Redirect
   \<and> length (artworks (snd (addArtwork empty_store (Some ''Irises'') (Some ''1889'')
        (Some ''oil'') None))) = 1"
  using create_validation [of "Some ''''" "Some ''1889''" "Some ''oil''" empty_store "Some ''1-2-a.png''"]
        create_validation [of "Some ''Irises''" "Some ''1889''" "Some ''oil''" empty_store]
  by (simp add: empty_store_def startup_def load_def readFileSync_def)

subsection \<open>Update\<close>

lemma property_key_index: "array_index s = Some i \<Longrightarrow> property_key s = Index i"
  by (simp add: property_key_def)

lemma array_index_0: "array_index ''0'' = Some 0"
  by code_simp

lemma array_index_1: "array_index ''1'' = Some 1"
  by code_simp

text \<open>
  C2. When the route parameter is the index of a position that holds a record, the
  update answers with the redirect, puts the new title, date and description into
  that record and keeps its image and its liked flag; every other position keeps its
  record, and the result is saved.
\<close>

theorem update_keeps_image_and_liked:
  assumes "array_index ident = Some i" and "i < length (artworks st)"
    and "artworks st ! i = Obj a"
  shows "fst (updateArtwork st ident ttl dt descr) = Redirect
    \<and> artworks (snd (updateArtwork st ident ttl dt descr)) =
        (artworks st)[i := Obj \<lparr>title = ttl, date = dt, description = descr,
                                 image = image a, liked = liked a\<rparr>]
    \<and> disk (snd (updateArtwork st ident ttl dt descr)) =
        Json (JSON_stringify (artworks (snd (updateArtwork st ident ttl dt descr))))"
  using assms
  by (cases a) (simp add: updateArtwork_def property_key_index Let_def saveArtwork_def)

theorem update_keeps_image_and_liked_witness:
  "array_index ''0'' = Some 0 \<and> 0 < length (artworks gallery)
   \<and> artworks gallery ! 0 = Obj irises
   \<and> artworks (snd (updateArtwork gallery ''0'' (Some ''Lilies'') (Some ''1890'') (Some ''ink'')))
       = [Obj \<lparr>title = Some ''Lilies'', date = Some ''1890'', description = Some ''ink'',
                image = File ''1-2-irises.png'', liked = Some True\<rparr>, Obj poppies]"
proof -
  have h2: "0 < length (artworks gallery)" and h3: "artworks gallery ! 0 = Obj irises"
    by (simp_all add: gallery_def)
  show ?thesis
    using update_keeps_image_and_liked [OF array_index_0 h2 h3,
        of "Some ''Lilies''" "Some ''1890''" "Some ''ink''"] h2 h3 array_index_0
    by (simp add: gallery_def irises_def)
qed

subsection \<open>Toggle\<close>

lemma parseInt_1_9: "parseInt ''1.9'' = Some 1"
  by code_simp




lemma number_key_small: "number_key (Some 0) = Index 0" "number_key (Some 1) = Index 1"
  by (simp_all add: number_key_def)

text \<open>
  C10. The toggle parses its parameter with \<^verbatim>\<open>parseInt\<close> before it looks the
  record up: the text \<^verbatim>\<open>1.9\<close>, which is not an array index, is read as 1, and in a
  collection whose position 1 holds a record the toggle flips the liked flag of that
  record and saves, instead of doing nothing.
\<close>

theorem toggle_integer_prefix:
  assumes "artworks st ! 1 = Obj a" and "2 \<le> length (artworks st)"
  shows "parseInt ''1.9'' = Some 1
    \<and> array_index ''1.9'' = None
    \<and> toggleLike st ''1.9'' =
        (Redirect, saveArtwork (st\<lparr>artworks :=
           (artworks st)[1 := Obj (a\<lparr>liked := Some (liked a \<noteq> Some True)\<rparr>)]\<rparr>))"
proof -
  have n: "array_index ''1.9'' = None"
    by code_simp
  from assms have g: "get_prop st (Index 1) = Object a"
    by simp
  show ?thesis
    using assms n by (simp add: toggleLike_def number_key_small g parseInt_1_9 Let_def)
qed

theorem toggle_integer_prefix_witness:
  "artworks gallery ! 1 = Obj poppies \<and> 2 \<le> length (artworks gallery)
   \<and> liked poppies = Some False
   \<and> artworks (snd (toggleLike gallery ''1.9'')) =
       [Obj irises, Obj (poppies\<lparr>liked := Some True\<rparr>)]"
proof -
  have h1: "artworks gallery ! 1 = Obj poppies" and h2: "2 \<le> length (artworks gallery)"
    by (simp_all add: gallery_def)
  show ?thesis
    using toggle_integer_prefix [OF h1 h2] h1 h2
    by (simp add: gallery_def poppies_def saveArtwork_def)
qed




subsection \<open>Positions outside the collection\<close>

text \<open>
  Reading for edit and deleting at an index at or beyond the length throw a TypeError
  before anything is changed.
\<close>

lemma get_beyond_length:
  "array_index ident = Some i \<Longrightarrow> length (artworks st) \<le> i \<Longrightarrow>
   getArtwork st ident = (Threw TypeError, st)"
  by (simp add: getArtwork_def property_key_index)

lemma delete_beyond_length:
  "array_index ident = Some i \<Longrightarrow> length (artworks st) \<le> i \<Longrightarrow>
   deleteArtwork st ident = (Threw TypeError, st)"
  by (simp add: deleteArtwork_def property_key_index)

text \<open>
  Under the key \<^verbatim>\<open>-1\<close>, which is no array index, the update creates a property of
  that name on the array object: the answer is the redirect again, the sequence is as
  before, and the new object is not part of what is saved.
\<close>

lemma array_index_minus_1: "array_index ''-1'' = None"
  by code_simp

lemma update_negative_key:
  "updateArtwork gallery ''-1'' (Some ''Lilies'') (Some ''1890'') (Some ''ink'') =
     (Redirect,
      gallery\<lparr>named :=
        [(''-1'', \<lparr>title = Some ''Lilies'', date = Some ''1890'', description = Some ''ink'',
                  image = NoProp, liked = None\<rparr>)]\<rparr>)"
  by (simp add: array_index_minus_1 updateArtwork_def property_key_def gallery_def Let_def
      saveArtwork_def JSON_stringify_def no_props_def)

lemma array_index_3: "array_index ''3'' = Some 3"
  by code_simp

text \<open>
  C1, at a failing input. The collection has two records and the update is sent to
  index 3. The handler has no check of the index: it answers with the redirect, as
  after a success, and the array has grown to length 4, with a hole at position 2 and
  at position 3 an object that has neither \<^verbatim>\<open>image\<close> nor \<^verbatim>\<open>liked\<close>; this array is
  saved, the hole as \<^verbatim>\<open>null\<close>.
\<close>

theorem update_beyond_length_extends:
  "array_index ''3'' = Some 3 \<and> length (artworks gallery) = 2
   \<and> updateArtwork gallery ''3'' (Some ''Lilies'') (Some ''1890'') (Some ''ink'') =
      (Redirect,
       gallery\<lparr>artworks :=
           [Obj irises, Obj poppies, Hole,
            Obj \<lparr>title = Some ''Lilies'', date = Some ''1890'', description = Some ''ink'',
                 image = NoProp, liked = None\<rparr>],
         disk := Json
           [Obj irises, Obj poppies, Null,
            Obj \<lparr>title = Some ''Lilies'', date = Some ''1890'', description = Some ''ink'',
                 image = NoProp, liked = None\<rparr>]\<rparr>)"
  by (simp add: array_index_3 updateArtwork_def property_key_def gallery_def Let_def
      saveArtwork_def JSON_stringify_def no_props_def)

text \<open>
  C9, at a failing input. One record is created in the empty store, with a title; the
  update of position 0 with an empty title is accepted, answers with the redirect and
  leaves a record whose title is the empty text.
\<close>

theorem update_accepts_empty_title:
  "fst (addArtwork empty_store (Some ''Irises'') (Some ''1889'') (Some ''oil'') None) = Redirect
   \<and> list_all titled
       (artworks (snd (addArtwork empty_store (Some ''Irises'') (Some ''1889'') (Some ''oil'') None)))
   \<and> updateArtwork
       (snd (addArtwork empty_store (Some ''Irises'') (Some ''1889'') (Some ''oil'') None))
       ''0'' (Some '''') (Some ''1889'') (Some ''oil'') =
      (Redirect,
       \<lparr>artworks = [Obj \<lparr>title = Some '''', date = Some ''1889'', description = Some ''oil'',
                          image = NullRef, liked = Some False\<rparr>],
        named = [],
        disk = Json [Obj \<lparr>title = Some '''', date = Some ''1889'', description = Some ''oil'',
                            image = NullRef, liked = Some False\<rparr>],
        uploads = []\<rparr>)
   \<and> \<not> titled (Obj \<lparr>title = Some '''', date = Some ''1889'', description = Some ''oil'',
                       image = NullRef, liked = Some False\<rparr>)"
  by (simp add: addArtwork_def upload_single_def empty_store_def startup_def load_def
      readFileSync_def updateArtwork_def property_key_def array_index_0 saveArtwork_def
      Let_def JSON_stringify_def)

subsection \<open>Delete\<close>

text \<open>
  For a key that is an array index, \<^verbatim>\<open>splice\<close> reads the same number from the
  text as the property lookup does.
\<close>

lemma digit_not_space: "is_digit c \<Longrightarrow> \<not> is_space c"
  by (auto simp: is_digit_def is_space_def)

lemma digit_not_sign: "is_digit c \<Longrightarrow> c \<noteq> CHR ''-'' \<and> c \<noteq> CHR ''+''"
  by (auto simp: is_digit_def)

lemma trim_digits:
  assumes "list_all is_digit s"
  shows "trim s = s"
proof -
  have a: "dropWhile is_space s = s"
    using assms by (cases s) (auto simp: digit_not_space)
  have "dropWhile is_space (rev s) = rev s"
    using assms by (cases "rev s") (auto simp: digit_not_space list_all_iff)
  then show ?thesis by (simp add: trim_def a)
qed

lemma non_decimal_digits:
  assumes "list_all is_digit s"
  shows "non_decimal s = None"
proof -
  have "take 2 s \<noteq> ''0x''" "take 2 s \<noteq> ''0X''" "take 2 s \<noteq> ''0o''" "take 2 s \<noteq> ''0O''"
       "take 2 s \<noteq> ''0b''" "take 2 s \<noteq> ''0B''"
    using assms by (cases s; cases "tl s"; auto simp: is_digit_def)+
  then show ?thesis by (simp add: non_decimal_def)
qed

lemma strip_sign_digits: "s \<noteq> [] \<Longrightarrow> list_all is_digit s \<Longrightarrow> strip_sign s = (False, s)"
  by (cases s) (auto simp: digit_not_sign)

lemma decimal_literal_digits:
  assumes "s \<noteq> []" "list_all is_digit s"
  shows "decimal_literal s = Some (decimal s, 0)"
proof -
  have t: "takeWhile is_digit s = s" and d: "dropWhile is_digit s = []"
    using assms by (simp_all add: list_all_iff)
  show ?thesis using assms by (simp add: decimal_literal_def t d exponent_part_def)
qed

lemma to_integer_digits:
  assumes "s \<noteq> []" "list_all is_digit s"
  shows "to_integer s = Fin (int (decimal s))"
proof -
  have "s \<noteq> ''Infinity''" using assms by (auto simp: is_digit_def)
  then show ?thesis
    using assms
    by (simp add: to_integer_def trim_digits non_decimal_digits strip_sign_digits
        decimal_literal_digits)
qed

lemma to_integer_index: "array_index s = Some k \<Longrightarrow> to_integer s = Fin (int k)"
  by (auto simp: array_index_def to_integer_digits split: if_splits)

lemma splice1_inside:
  "k < length xs \<Longrightarrow> splice1 xs (Fin (int k)) = take k xs @ drop (Suc k) xs"
  by (simp add: splice1_def Let_def min_def nat_add_distrib)

lemma artworks_unlink_image [simp]: "artworks (unlink_image st a) = artworks st"
  by (simp add: unlink_image_def split: image_ref.splits)

lemma delete_at_record:
  assumes "array_index ident = Some k" "k < length (artworks st)" "artworks st ! k = Obj a"
  shows "fst (deleteArtwork st ident) = Redirect"
    and "artworks (snd (deleteArtwork st ident)) = take k (artworks st) @ drop (Suc k) (artworks st)"
  using assms
  by (simp_all add: deleteArtwork_def property_key_index to_integer_index splice1_inside
      Let_def saveArtwork_def)

lemma artworks_create_all:
  "list_all accepted fs \<Longrightarrow> artworks (create_all st fs) = artworks st @ map pushed fs"
proof (induction fs arbitrary: st)
  case Nil
  then show ?case by simp
next
  case (Cons f fs)
  obtain t d ds im where f: "f = (t, d, ds, im)" by (cases f) auto
  with Cons.prems have ok: "truthy t" "truthy d" "truthy ds" and rest: "list_all accepted fs"
    by simp_all
  have "artworks (snd (addArtwork st t d ds im)) = artworks st @ [pushed f]"
    using ok by (simp add: addArtwork_def f saveArtwork_def Let_def)
  with Cons.IH [OF rest] show ?case by (simp add: f)
qed

text \<open>
  C4. The collection is built by successful create requests in a store that started
  empty, and the record at a position \<open>k\<close> of it is deleted. The delete answers with
  the redirect; the positions below \<open>k\<close> keep their records, every record above
  \<open>k\<close> moves down by one; reading position \<open>k\<close> afterwards yields the record that
  was at \<open>k + 1\<close>, or fails with the TypeError when \<open>k\<close> was the last position.
\<close>

theorem delete_reindexes:
  assumes "artworks st0 = []" and "list_all accepted fs"
    and "array_index ident = Some k" and "k < length fs"
  defines "st \<equiv> create_all st0 fs"
  defines "st' \<equiv> snd (deleteArtwork st ident)"
  shows "fst (deleteArtwork st ident) = Redirect
    \<and> artworks st' = take k (artworks st) @ drop (Suc k) (artworks st)
    \<and> (\<forall>j. j < k \<longrightarrow> artworks st' ! j = artworks st ! j)
    \<and> (\<forall>j. k \<le> j \<and> Suc j < length fs \<longrightarrow> artworks st' ! j = artworks st ! Suc j)
    \<and> (if Suc k < length fs
        then \<exists>a. artworks st ! Suc k = Obj a
               \<and> getArtwork st' ident = (Form ident (title a) (date a) (description a), st')
        else getArtwork st' ident = (Threw TypeError, st'))"
proof -
  have xs: "artworks st = map pushed fs"
    using assms(1,2) by (simp add: st_def artworks_create_all)
  then have len: "length (artworks st) = length fs" by simp
  obtain a where a: "artworks st ! k = Obj a"
    using assms(4) xs by (cases "fs ! k") auto
  have k: "k < length (artworks st)" using assms(4) len by simp
  note d = delete_at_record [OF assms(3) k a]
  have after: "artworks st' = take k (artworks st) @ drop (Suc k) (artworks st)"
    by (simp add: st'_def d)
  have lo: "\<forall>j. j < k \<longrightarrow> artworks st' ! j = artworks st ! j"
    using k by (simp add: after nth_append)
  have hi: "\<forall>j. k \<le> j \<and> Suc j < length fs \<longrightarrow> artworks st' ! j = artworks st ! Suc j"
    using k len by (auto simp: after nth_append)
  have get: "if Suc k < length fs
        then \<exists>a. artworks st ! Suc k = Obj a
               \<and> getArtwork st' ident = (Form ident (title a) (date a) (description a), st')
        else getArtwork st' ident = (Threw TypeError, st')"
  proof (cases "Suc k < length fs")
    case True
    obtain b where b: "artworks st ! Suc k = Obj b"
      using True xs by (cases "fs ! Suc k") auto
    have "k < length (artworks st')" using True len k by (simp add: after)
    moreover have "artworks st' ! k = Obj b"
      using hi True b by simp
    ultimately have "getArtwork st' ident = (Form ident (title b) (date b) (description b), st')"
      by (simp add: getArtwork_def property_key_index [OF assms(3)])
    with True b show ?thesis by auto
  next
    case False
    then have "length (artworks st') \<le> k" using len k by (simp add: after)
    then have "getArtwork st' ident = (Threw TypeError, st')"
      by (simp add: getArtwork_def property_key_index [OF assms(3)])
    with False show ?thesis by simp
  qed
  from d(1) after lo hi get show ?thesis by blast
qed

lemma array_index_2: "array_index ''2'' = Some 2"
  by code_simp

theorem delete_reindexes_witness:
  "artworks empty_store = [] \<and> list_all accepted [form_a, form_b, form_c]
   \<and> array_index ''0'' = Some 0 \<and> array_index ''2'' = Some 2
   \<and> artworks (snd (deleteArtwork (create_all empty_store [form_a, form_b, form_c]) ''0''))
       = [pushed form_b, pushed form_c]
   \<and> fst (getArtwork (snd (deleteArtwork (create_all empty_store [form_a, form_b, form_c]) ''0'')) ''0'')
       = Form ''0'' (Some ''B'') (Some ''1902'') (Some ''second'')
   \<and> fst (getArtwork (snd (deleteArtwork (create_all empty_store [form_a, form_b, form_c]) ''2'')) ''2'')
       = Threw TypeError"
proof -
  have e: "artworks empty_store = []"
    by (simp add: empty_store_def startup_def load_def readFileSync_def)
  have ok: "list_all accepted [form_a, form_b, form_c]"
    by (simp add: form_a_def form_b_def form_c_def)
  have xs: "artworks (create_all empty_store [form_a, form_b, form_c])
      = [pushed form_a, pushed form_b, pushed form_c]"
    by (simp add: artworks_create_all [OF ok] e)
  have b: "pushed form_b = Obj \<lparr>title = Some ''B'', date = Some ''1902'',
      description = Some ''second'', image = File ''7-8-b.png'', liked = Some False\<rparr>"
    by (simp add: form_b_def)
  show ?thesis
    using delete_reindexes [OF e ok array_index_0, simplified]
          delete_reindexes [OF e ok array_index_2, simplified]
          e ok array_index_0 array_index_2
    by (auto simp: xs b)
qed

subsection \<open>Save and load\<close>

text \<open>
  When every position of the array has been given a value, saving and then starting a
  fresh process on the saved file gives an array equal to the one that was saved,
  position by position and field by field.
\<close>

lemma save_load_without_hole:
  assumes "Hole \<notin> set (artworks st)"
  shows "artworks (startup (disk (saveArtwork st)) fs) = artworks st"
proof -
  have "map stringify_slot (artworks st) = artworks st"
    using assms by (intro map_idI) (metis stringify_slot.elims)
  then show ?thesis
    by (simp add: startup_def saveArtwork_def load_def readFileSync_def JSON_parse_def
        JSON_stringify_def)
qed

lemma save_load_gallery:
  "artworks (startup (disk (saveArtwork gallery)) []) = [Obj irises, Obj poppies]"
  by (simp add: save_load_without_hole gallery_def)

lemma holed_eq:
  "holed = gallery\<lparr>artworks :=
           [Obj irises, Obj poppies, Hole,
            Obj \<lparr>title = Some ''Lilies'', date = Some ''1890'', description = Some ''ink'',
                 image = NoProp, liked = None\<rparr>],
         disk := Json
           [Obj irises, Obj poppies, Null,
            Obj \<lparr>title = Some ''Lilies'', date = Some ''1890'', description = Some ''ink'',
                 image = NoProp, liked = None\<rparr>]\<rparr>"
  by (simp add: holed_def array_index_3 updateArtwork_def property_key_def gallery_def Let_def
      saveArtwork_def JSON_stringify_def no_props_def)

lemma with_index_4: "with_index [a, b, c, d] = [(0, a), (1, b), (2, c), (3, d)]"
  by (simp add: with_index_def upt_rec)

text \<open>
  C5, at a failing input. The collection has two records and an update is sent to
  index 3; it is accepted and leaves the array with a never-assigned position 2.
  Saving writes that position as \<^verbatim>\<open>null\<close>, so the fresh process loads an array that
  differs from the saved one at position 2: \<^verbatim>\<open>null\<close> where the saved array has
  nothing. The difference shows: the home page of the saved state lists its three
  records, the home page of the reloaded state throws.
\<close>

theorem save_load_turns_hole_into_null:
  "fst (updateArtwork gallery ''3'' (Some ''Lilies'') (Some ''1890'') (Some ''ink'')) = Redirect
   \<and> artworks holed =
       [Obj irises, Obj poppies, Hole,
        Obj \<lparr>title = Some ''Lilies'', date = Some ''1890'', description = Some ''ink'',
             image = NoProp, liked = None\<rparr>]
   \<and> artworks reloaded =
       [Obj irises, Obj poppies, Null,
        Obj \<lparr>title = Some ''Lilies'', date = Some ''1890'', description = Some ''ink'',
             image = NoProp, liked = None\<rparr>]
   \<and> artworks reloaded \<noteq> artworks holed
   \<and> fst (home holed None) =
       Cards [(0, irises), (1, poppies),
              (3, \<lparr>title = Some ''Lilies'', date = Some ''1890'', description = Some ''ink'',
                    image = NoProp, liked = None\<rparr>)]
   \<and> fst (home reloaded None) = Threw TypeError"
proof -
  have r: "fst (updateArtwork gallery ''3'' (Some ''Lilies'') (Some ''1890'') (Some ''ink'')) = Redirect"
    by (simp add: updateArtwork_def Let_def)
  have l: "artworks reloaded =
       [Obj irises, Obj poppies, Null,
        Obj \<lparr>title = Some ''Lilies'', date = Some ''1890'', description = Some ''ink'',
             image = NoProp, liked = None\<rparr>]"
    by (simp add: reloaded_def holed_eq startup_def saveArtwork_def JSON_stringify_def load_def
        readFileSync_def JSON_parse_def)
  have h: "fst (home holed None) =
       Cards [(0, irises), (1, poppies),
              (3, \<lparr>title = Some ''Lilies'', date = Some ''1890'', description = Some ''ink'',
                    image = NoProp, liked = None\<rparr>)]"
    by (simp add: home_def holed_eq with_index_4 search_query_def irises_def poppies_def
        toLowerCase_def)
  have t: "fst (home reloaded None) = Threw TypeError"
    by (simp add: home_def l with_index_4 search_query_def irises_def poppies_def
        toLowerCase_def)
  show ?thesis using r l h t by (simp add: holed_eq)
qed

subsection \<open>Search\<close>

lemma includes_str_iff: "includes_str s q \<longleftrightarrow> (\<exists>pre suf. s = pre @ q @ suf)"
proof (induction s)
  case Nil
  then show ?case by auto
next
  case (Cons c cs)
  have "take (length q) (c # cs) = q \<longleftrightarrow> (\<exists>suf. c # cs = q @ suf)"
    by (metis append_eq_conv_conj append_take_drop_id)
  moreover have "(\<exists>pre suf. c # cs = pre @ q @ suf) \<longleftrightarrow>
      (\<exists>suf. c # cs = q @ suf) \<or> (\<exists>pre suf. cs = pre @ q @ suf)"
  proof
    assume "\<exists>pre suf. c # cs = pre @ q @ suf"
    then obtain pre suf where e: "c # cs = pre @ q @ suf" by blast
    show "(\<exists>suf. c # cs = q @ suf) \<or> (\<exists>pre suf. cs = pre @ q @ suf)"
    proof (cases pre)
      case Nil
      with e show ?thesis by auto
    next
      case (Cons p ps)
      with e have "cs = ps @ q @ suf" by simp
      then show ?thesis by blast
    qed
  next
    assume "(\<exists>suf. c # cs = q @ suf) \<or> (\<exists>pre suf. cs = pre @ q @ suf)"
    then show "\<exists>pre suf. c # cs = pre @ q @ suf"
    proof
      assume "\<exists>suf. c # cs = q @ suf"
      then obtain suf where "c # cs = [] @ q @ suf" by auto
      then show ?thesis by blast
    next
      assume "\<exists>pre suf. cs = pre @ q @ suf"
      then obtain pre suf where "c # cs = (c # pre) @ q @ suf" by auto
      then show ?thesis by blast
    qed
  qed
  ultimately show ?case using Cons.IH by simp
qed

lemma includes_lower:
  "includes_str (toLowerCase t) (toLowerCase q) \<longleftrightarrow> contains_ignoring_case t q"
proof
  assume "includes_str (toLowerCase t) (toLowerCase q)"
  then obtain pre suf where "map lower_char t = pre @ map lower_char q @ suf"
    by (auto simp: includes_str_iff toLowerCase_def)
  then obtain us vs where u: "t = us @ vs" and v: "map lower_char vs = map lower_char q @ suf"
    by (metis map_eq_append_conv)
  from v obtain b c where "vs = b @ c" "map lower_char b = map lower_char q"
    by (metis map_eq_append_conv)
  with u have "t = us @ b @ c" "map lower_char b = map lower_char q" by simp_all
  then show "contains_ignoring_case t q"
    by (auto simp: contains_ignoring_case_def toLowerCase_def)
next
  assume "contains_ignoring_case t q"
  then obtain pre mid suf where "t = pre @ mid @ suf" "toLowerCase mid = toLowerCase q"
    by (auto simp: contains_ignoring_case_def)
  then have "toLowerCase t = toLowerCase pre @ toLowerCase q @ toLowerCase suf"
    by (simp add: toLowerCase_def)
  then show "includes_str (toLowerCase t) (toLowerCase q)"
    unfolding includes_str_iff by blast
qed

lemma home_filter_records:
  "list_all (\<lambda>p. text_record (snd p)) ixs \<Longrightarrow>
   home_filter q ixs = Inr (filter (\<lambda>(i, a). field_matches q (title a)) (records ixs))"
  by (induction q ixs rule: home_filter.induct)
     (auto simp: field_matches_def includes_lower)

lemma fav_filter_records:
  "list_all (\<lambda>p. text_record (snd p)) ixs \<Longrightarrow>
   fav_filter q ixs =
     Inr (filter (\<lambda>(i, a). liked a = Some True \<and>
            (field_matches q (title a) \<or> field_matches q (description a))) (records ixs))"
  by (induction q ixs rule: fav_filter.induct)
     (auto simp: field_matches_def includes_lower fav_test_def)

lemma with_index_text:
  "list_all text_record xs \<Longrightarrow> list_all (\<lambda>p. text_record (snd p)) (with_index xs)"
  by (auto simp: list_all_iff with_index_def dest: set_zip_rightD)

lemma empty_query_matches: "contains_ignoring_case t []"
  by (auto simp: contains_ignoring_case_def toLowerCase_def)

lemma records_positions:
  "list_all (\<lambda>p. text_record (snd p)) ixs \<Longrightarrow> map fst (records ixs) = map fst ixs"
  by (induction ixs rule: records.induct) auto

lemma records_match_empty:
  "list_all (\<lambda>p. text_record (snd p)) ixs \<Longrightarrow>
   list_all (\<lambda>(i, a). field_matches [] (title a)) (records ixs)"
  by (induction ixs rule: records.induct) (auto simp: field_matches_def empty_query_matches)

text \<open>
  In a collection in which every position holds a record with text in title and
  description (text being ASCII), the home page lists exactly the records whose title
  contains the query case-insensitively, and the favourites page exactly the liked
  records whose title or description does; both list them with their positions and
  in the order of the collection, and the absent or empty query lists every record
  on the home page.
\<close>

lemma listing_filters:
  assumes "list_all text_record (artworks st)"
  shows "home st search =
      (Cards (filter (\<lambda>(i, a). field_matches (search_query search) (title a))
                (records (with_index (artworks st)))), st)
    \<and> favourites st search =
      (Cards (filter (\<lambda>(i, a). liked a = Some True \<and>
                (field_matches (search_query search) (title a)
                 \<or> field_matches (search_query search) (description a)))
                (records (with_index (artworks st)))), st)
    \<and> map fst (records (with_index (artworks st))) = [0 ..< length (artworks st)]
    \<and> home st None = (Cards (records (with_index (artworks st))), st)
    \<and> home st (Some []) = (Cards (records (with_index (artworks st))), st)"
proof -
  note ix = with_index_text [OF assms]
  have h: "home st s =
      (Cards (filter (\<lambda>(i, a). field_matches (search_query s) (title a))
                (records (with_index (artworks st)))), st)" for s
    by (simp add: home_def home_filter_records [OF ix])
  have f: "favourites st search =
      (Cards (filter (\<lambda>(i, a). liked a = Some True \<and>
                (field_matches (search_query search) (title a)
                 \<or> field_matches (search_query search) (description a)))
                (records (with_index (artworks st)))), st)"
    by (simp add: favourites_def fav_filter_records [OF ix])
  have o: "map fst (records (with_index (artworks st))) = [0 ..< length (artworks st)]"
    using records_positions [OF ix] by (simp add: with_index_def)
  have e: "filter (\<lambda>(i, a). field_matches [] (title a)) (records (with_index (artworks st)))
      = records (with_index (artworks st))"
    using records_match_empty [OF ix] by (simp add: list_all_iff filter_id_conv)
  have n: "home st None = (Cards (records (with_index (artworks st))), st)"
    and m: "home st (Some []) = (Cards (records (with_index (artworks st))), st)"
    using e by (simp_all add: h search_query_def)
  from h [of search] f o n m show ?thesis by blast
qed

lemma with_index_3: "with_index [a, b, c] = [(0, a), (1, b), (2, c)]"
  by (simp add: with_index_def upt_rec)

lemma sample_matches:
  "contains_ignoring_case ''Abcdef'' ''abc''"
  "\<not> contains_ignoring_case ''xyz'' ''abc''"
  "contains_ignoring_case ''ABC123'' ''abc''"
  "contains_ignoring_case ''has ABC in it'' ''abc''"
  unfolding includes_lower [symmetric] by code_simp+

lemma listing_filters_shelf:
  "list_all text_record (artworks shelf)
   \<and> home shelf (Some ''abc'') = (Cards [(0, abcdef), (2, abc123)], shelf)
   \<and> favourites shelf (Some ''abc'') = (Cards [(1, xyz), (2, abc123)], shelf)"
proof -
  have h: "list_all text_record (artworks shelf)"
    by (simp add: shelf_def abcdef_def xyz_def abc123_def)
  have a: "artworks shelf = [Obj abcdef, Obj xyz, Obj abc123]"
    by (simp add: shelf_def)
  have t: "title abcdef = Some ''Abcdef''" "title xyz = Some ''xyz''" "title abc123 = Some ''ABC123''"
    "description xyz = Some ''has ABC in it''"
    "liked abcdef = Some False" "liked xyz = Some True" "liked abc123 = Some True"
    by (simp_all add: abcdef_def xyz_def abc123_def)
  show ?thesis
    using listing_filters [OF h, of "Some ''abc''"] h
    by (simp add: a with_index_3 search_query_def field_matches_def t sample_matches)
qed

lemma with_index_1: "with_index [a] = [(0, a)]"
  by (simp add: with_index_def)

lemma untitled_eq:
  "untitled =
     \<lparr>artworks = [Obj \<lparr>title = None, date = Some ''1889'', description = Some ''oil'',
                        image = NullRef, liked = Some False\<rparr>],
      named = [],
      disk = Json [Obj \<lparr>title = None, date = Some ''1889'', description = Some ''oil'',
                          image = NullRef, liked = Some False\<rparr>],
      uploads = []\<rparr>"
  by (simp add: untitled_def addArtwork_def upload_single_def empty_store_def startup_def
      load_def readFileSync_def updateArtwork_def property_key_def array_index_0
      saveArtwork_def Let_def JSON_stringify_def)

lemma parseInt_0: "parseInt ''0'' = Some 0"
  by code_simp

text \<open>
  C7, at a failing input. One record is created in the empty store and then updated
  by a form without a title field; both requests are accepted. The record now has no
  title, and the home page throws a TypeError for every query, where the claim has it
  return the records whose title contains the query. Once the record is liked, the
  favourites page throws as well.
\<close>

theorem listing_throws_without_title:
  "fst (addArtwork empty_store (Some ''Irises'') (Some ''1889'') (Some ''oil'') None) = Redirect
   \<and> fst (updateArtwork
            (snd (addArtwork empty_store (Some ''Irises'') (Some ''1889'') (Some ''oil'') None))
            ''0'' None (Some ''1889'') (Some ''oil'')) = Redirect
   \<and> artworks untitled =
       [Obj \<lparr>title = None, date = Some ''1889'', description = Some ''oil'',
              image = NullRef, liked = Some False\<rparr>]
   \<and> home untitled None = (Threw TypeError, untitled)
   \<and> home untitled (Some ''oil'') = (Threw TypeError, untitled)
   \<and> fst (toggleLike untitled ''0'') = Redirect
   \<and> fst (favourites (snd (toggleLike untitled ''0'')) (Some ''oil'')) = Threw TypeError"
proof -
  have a: "fst (addArtwork empty_store (Some ''Irises'') (Some ''1889'') (Some ''oil'') None) = Redirect"
    by (simp add: addArtwork_def Let_def)
  have u: "fst (updateArtwork
            (snd (addArtwork empty_store (Some ''Irises'') (Some ''1889'') (Some ''oil'') None))
            ''0'' None (Some ''1889'') (Some ''oil'')) = Redirect"
    by (simp add: updateArtwork_def Let_def)
  have x: "artworks untitled =
       [Obj \<lparr>title = None, date = Some ''1889'', description = Some ''oil'',
              image = NullRef, liked = Some False\<rparr>]"
    by (simp add: untitled_eq)
  have h: "home untitled s = (Threw TypeError, untitled)" for s
    by (simp add: home_def x with_index_1)
  have t: "toggleLike untitled ''0'' = (Redirect, saveArtwork (untitled\<lparr>artworks :=
      [Obj \<lparr>title = None, date = Some ''1889'', description = Some ''oil'',
             image = NullRef, liked = Some True\<rparr>]\<rparr>))"
    by (simp add: toggleLike_def parseInt_0 number_key_small x Let_def)
  have f: "fst (favourites (snd (toggleLike untitled ''0'')) (Some ''oil'')) = Threw TypeError"
    by (simp add: t favourites_def saveArtwork_def with_index_1 fav_test_def)
  show ?thesis using a u x h t f by simp
qed

end
